theory Spec2Isabelle
  imports Complex_Main "HOL-Library.Word"
begin

section \<open>Bytes, strings and errors\<close>

text \<open>
  A Node \<open>Buffer\<close> or \<open>Uint8Array\<close> is a list of bytes. A JavaScript string is held as
  the list of its UTF-8 code units, so that \<open>Buffer.from(s)\<close> and
  \<open>new TextEncoder().encode(s)\<close> only change the type of the elements. A thrown
  \<open>Error\<close> is a value carrying its message; \<open>RangeError\<close> and \<open>TypeError\<close> are the
  runtime's own exceptions, \<open>OperationError\<close> is WebCrypto's rejection of a ciphertext
  whose tag does not verify.
\<close>

type_synonym byte = "8 word"
type_synonym buffer = "byte list"

datatype js_error = Error string | RangeError string | TypeError string | OperationError

definition error_message :: "js_error \<Rightarrow> string" where
  "error_message e = (case e of Error m \<Rightarrow> m | RangeError m \<Rightarrow> m | TypeError m \<Rightarrow> m
     | OperationError \<Rightarrow> ''The operation failed for an operation-specific reason'')"

definition utf8 :: "string \<Rightarrow> buffer" where
  "utf8 s = map (\<lambda>c. of_char c) s"

definition buffer_toString :: "buffer \<Rightarrow> string" where
  "buffer_toString b = map (\<lambda>w. char_of (unat w)) b"

text \<open>\<open>xs[i]\<close> in JavaScript: \<open>undefined\<close> (here \<open>None\<close>) outside the array.\<close>

definition js_index :: "'a list \<Rightarrow> int \<Rightarrow> 'a option" where
  "js_index xs i = (if 0 \<le> i \<and> i < int (length xs) then Some (xs ! nat i) else None)"

subsection \<open>CryptoUtils: hexadecimal\<close>

definition hex_digit :: "nat \<Rightarrow> char" where
  "hex_digit n = ''0123456789abcdef'' ! n"

definition byte_toHex :: "byte \<Rightarrow> string" where
  "byte_toHex b = [hex_digit (unat b div 16), hex_digit (unat b mod 16)]"

text \<open>\<open>CryptoUtils.toHex\<close>: \<open>buffer.toString("hex")\<close>, two lowercase digits a byte.\<close>

definition toHex :: "buffer \<Rightarrow> string" where
  "toHex b = concat (map byte_toHex b)"

definition hex_value :: "char \<Rightarrow> nat option" where
  "hex_value c = (let n = (of_char c :: nat) in
     if 48 \<le> n \<and> n \<le> 57 then Some (n - 48)
     else if 97 \<le> n \<and> n \<le> 102 then Some (n - 87)
     else if 65 \<le> n \<and> n \<le> 70 then Some (n - 55)
     else None)"

text \<open>
  \<open>CryptoUtils.fromHex\<close>: \<open>Buffer.from(hex, "hex")\<close> decodes pairs of digits and stops at
  the first pair that is not hexadecimal, or at a single trailing digit.
\<close>

fun fromHex :: "string \<Rightarrow> buffer" where
  "fromHex (a # b # rest) =
     (case hex_value a of
        None \<Rightarrow> []
      | Some h \<Rightarrow> (case hex_value b of
          None \<Rightarrow> []
        | Some l \<Rightarrow> of_nat (16 * h + l) # fromHex rest))"
| "fromHex _ = []"

subsection \<open>Sizes: unsigned 32 bits, little endian\<close>

text \<open>
  \<open>DataView.setUint32(0, n, true)\<close> stores \<open>n\<close> modulo \<open>2 ^ 32\<close>, lowest byte first.
  \<open>Buffer.writeUInt32LE\<close>, which the local \<open>encodeSize\<close> calls, throws a
  \<open>RangeError\<close> for a value above \<open>2 ^ 32 - 1\<close> instead.
\<close>

definition u32_LE :: "nat \<Rightarrow> buffer" where
  "u32_LE n = (let w = (of_nat n :: 32 word) in
     [ucast w, ucast (drop_bit 8 w), ucast (drop_bit 16 w), ucast (drop_bit 24 w)])"

definition encodeSize :: "nat \<Rightarrow> js_error + buffer" where
  "encodeSize n =
     (if n < 2 ^ 32 then Inr (u32_LE n)
      else Inl (RangeError ''The value of \"value\" is out of range.''))"

subsection \<open>JSON.stringify\<close>

text \<open>
  The values \<open>JSON.stringify\<close> serialises, an object as the list of its properties in
  enumeration order, a number as an integer (ports and lengths; fractions are outside
  the model). The output is compact: no white space between tokens.
\<close>

datatype json =
    JNull
  | JBool bool
  | JNumber int
  | JString string
  | JArray "json list"
  | JObject "(string \<times> json) list"

fun show_nat :: "nat \<Rightarrow> string" where
  "show_nat n = (if n < 10 then [hex_digit n] else show_nat (n div 10) @ [hex_digit (n mod 10)])"

definition show_int :: "int \<Rightarrow> string" where
  "show_int i = (if i < 0 then CHR ''-'' # show_nat (nat (- i)) else show_nat (nat i))"

text \<open>
  A string in quotes: the quote and the backslash escaped, a control character below
  \<open>0x20\<close> as its short escape or as \<open>\u00XX\<close>, every other code unit as it is.
\<close>

definition json_escape :: "char \<Rightarrow> string" where
  "json_escape c =
     (if c = CHR 0x22 then [CHR 0x5C, CHR 0x22]
      else if c = CHR 0x5C then [CHR 0x5C, CHR 0x5C]
      else if c = CHR 0x08 then [CHR 0x5C, CHR ''b'']
      else if c = CHR 0x0C then [CHR 0x5C, CHR ''f'']
      else if c = CHR 0x0A then [CHR 0x5C, CHR ''n'']
      else if c = CHR 0x0D then [CHR 0x5C, CHR ''r'']
      else if c = CHR 0x09 then [CHR 0x5C, CHR ''t'']
      else if (of_char c :: nat) < 32
      then [CHR 0x5C, CHR ''u'', CHR ''0'', CHR ''0'',
            hex_digit ((of_char c :: nat) div 16), hex_digit ((of_char c :: nat) mod 16)]
      else [c])"

definition json_quote :: "string \<Rightarrow> string" where
  "json_quote s = [CHR 0x22] @ concat (map json_escape s) @ [CHR 0x22]"

fun join_comma :: "string list \<Rightarrow> string" where
  "join_comma [] = []"
| "join_comma [x] = x"
| "join_comma (x # y # ys) = x @ '','' @ join_comma (y # ys)"

fun JSON_stringify :: "json \<Rightarrow> string" where
  "JSON_stringify JNull = ''null''"
| "JSON_stringify (JBool b) = (if b then ''true'' else ''false'')"
| "JSON_stringify (JNumber i) = show_int i"
| "JSON_stringify (JString s) = json_quote s"
| "JSON_stringify (JArray xs) = ''['' @ join_comma (map JSON_stringify xs) @ '']''"
| "JSON_stringify (JObject kvs) =
     ''{'' @ join_comma (map (\<lambda>kv. json_quote (fst kv) @ '':'' @ JSON_stringify (snd kv)) kvs) @ ''}''"

declare show_nat.simps [simp del]

section \<open>Randomness and the cryptographic libraries\<close>

text \<open>
  The operating system's random generator is a stream of bytes and a cursor;
  \<open>randomBytes(n)\<close> reads the next \<open>n\<close> bytes. \<open>tweetnacl\<close> and Node's \<open>crypto\<close> both
  draw from it.
\<close>

record rng =
  rng_source :: "nat \<Rightarrow> byte"
  rng_pos :: nat

definition rng_bytes :: "rng \<Rightarrow> nat \<Rightarrow> nat \<Rightarrow> buffer" where
  "rng_bytes g off n = map (rng_source g) [rng_pos g + off ..< rng_pos g + off + n]"

definition rng_skip :: "nat \<Rightarrow> rng \<Rightarrow> rng" where
  "rng_skip n g = g\<lparr>rng_pos := rng_pos g + n\<rparr>"

definition randomBytes :: "nat \<Rightarrow> rng \<Rightarrow> buffer \<times> rng" where
  "randomBytes n g = (rng_bytes g 0 n, rng_skip n g)"

text \<open>
  The primitives of \<open>tweetnacl\<close>, Node's \<open>crypto\<close> and WebCrypto are parameters:
  the X25519 function on 32-byte strings, HMAC-SHA256 (key, then message), and AES-GCM
  under a key and an IV, whose output is the ciphertext followed by the 16-byte tag and
  whose inverse yields nothing when the tag does not verify.
\<close>

record crypto_backend =
  x25519 :: "buffer \<Rightarrow> buffer \<Rightarrow> buffer"
  hmac_sha256 :: "buffer \<Rightarrow> buffer \<Rightarrow> buffer"
  aes_gcm_encrypt :: "buffer \<Rightarrow> buffer \<Rightarrow> buffer \<Rightarrow> buffer"
  aes_gcm_decrypt :: "buffer \<Rightarrow> buffer \<Rightarrow> buffer \<Rightarrow> buffer option"

text \<open>\<open>nacl.scalarMult(n, p)\<close> throws unless both arguments have 32 bytes.\<close>

definition nacl_scalarMult :: "crypto_backend \<Rightarrow> buffer \<Rightarrow> buffer \<Rightarrow> js_error + buffer" where
  "nacl_scalarMult B n p =
     (if length n \<noteq> 32 then Inl (Error ''bad n size'')
      else if length p \<noteq> 32 then Inl (Error ''bad p size'')
      else Inr (x25519 B n p))"

definition nacl_base_point :: buffer where
  "nacl_base_point = 9 # replicate 31 0"

record keypair =
  publicKey :: buffer
  secretKey :: buffer

text \<open>\<open>nacl.box.keyPair()\<close>: 32 random bytes, and their product with the base point.\<close>

definition keypair_of :: "crypto_backend \<Rightarrow> buffer \<Rightarrow> keypair" where
  "keypair_of B sk = \<lparr>publicKey = x25519 B sk nacl_base_point, secretKey = sk\<rparr>"

definition nacl_box_keyPair :: "crypto_backend \<Rightarrow> rng \<Rightarrow> keypair \<times> rng" where
  "nacl_box_keyPair B g = (case randomBytes 32 g of (sk, g') \<Rightarrow> (keypair_of B sk, g'))"

section \<open>HopEncryption\<close>

record HopEncryption =
  he_privateKey :: buffer
  he_publicKey :: buffer
  he_isServer :: bool

text \<open>The constructor: \<open>slice(0, 32)\<close> of both keys.\<close>

definition HopEncryption_new :: "buffer \<Rightarrow> buffer \<Rightarrow> bool \<Rightarrow> HopEncryption" where
  "HopEncryption_new privKey pubKey isSrv =
     \<lparr>he_privateKey = take 32 privKey, he_publicKey = take 32 pubKey, he_isServer = isSrv\<rparr>"

definition deriveSymmetricKey :: "crypto_backend \<Rightarrow> buffer \<Rightarrow> buffer \<Rightarrow> bool \<Rightarrow> js_error + buffer" where
  "deriveSymmetricKey B seckey pubkey isForDecryption =
     (case nacl_scalarMult B seckey pubkey of
        Inl e \<Rightarrow> Inl e
      | Inr sharedSecret \<Rightarrow> Inr (hmac_sha256 B (utf8 ''LOKI'') sharedSecret))"

definition encryptAESGCM ::
  "crypto_backend \<Rightarrow> HopEncryption \<Rightarrow> buffer \<Rightarrow> buffer \<Rightarrow> rng \<Rightarrow> js_error + buffer \<times> rng" where
  "encryptAESGCM B this plaintext recipientPubKey g =
     (case deriveSymmetricKey B (he_privateKey this) recipientPubKey False of
        Inl e \<Rightarrow> Inl e
      | Inr key \<Rightarrow>
          (case randomBytes 12 g of
             (iv, g') \<Rightarrow> Inr (iv @ aes_gcm_encrypt B key iv plaintext, g')))"

definition encrypt ::
  "crypto_backend \<Rightarrow> HopEncryption \<Rightarrow> string \<Rightarrow> buffer \<Rightarrow> buffer \<Rightarrow> rng \<Rightarrow> js_error + buffer \<times> rng" where
  "encrypt B this encType plaintext recipientPubKey g =
     (if encType = ''aes-gcm'' \<or> encType = ''gcm''
      then encryptAESGCM B this plaintext recipientPubKey g
      else Inl (Error (''Unsupported encryption type: '' @ encType)))"

definition decryptAESGCM ::
  "crypto_backend \<Rightarrow> HopEncryption \<Rightarrow> buffer \<Rightarrow> buffer \<Rightarrow> js_error + buffer" where
  "decryptAESGCM B this ciphertext senderPubKey =
     (if length ciphertext < 12 + 16 then Inl (Error ''Ciphertext too short for AES-GCM'')
      else
        (let iv = take 12 ciphertext; encrypted = drop 12 ciphertext in
         case deriveSymmetricKey B (he_privateKey this) senderPubKey True of
           Inl e \<Rightarrow> Inl e
         | Inr key \<Rightarrow>
             (case aes_gcm_decrypt B key iv encrypted of
                None \<Rightarrow> Inl OperationError
              | Some decrypted \<Rightarrow> Inr decrypted)))"

definition decrypt ::
  "crypto_backend \<Rightarrow> HopEncryption \<Rightarrow> string \<Rightarrow> buffer \<Rightarrow> buffer \<Rightarrow> js_error + buffer" where
  "decrypt B this encType ciphertext senderPubKey =
     (if encType = ''aes-gcm'' \<or> encType = ''gcm''
      then decryptAESGCM B this ciphertext senderPubKey
      else if encType = ''xchacha20''
      then decryptAESGCM B this ciphertext senderPubKey
      else Inl (Error (''Unsupported encryption type: '' @ encType)))"

section \<open>OnionBuilder\<close>

record ServiceNode =
  pubkey_ed25519 :: string
  pubkey_x25519 :: string
  public_ip :: string
  storage_lmq_port :: int
  storage_port :: int
  swarm_id :: int

record OnionDestination =
  host :: string
  port :: int
  protocol :: string
  target :: string

record OnionPathNode =
  ed25519_pubkey :: string
  x25519_pubkey :: string
  ip :: string
  node_port :: int

record OnionResponse =
  statusCode :: int
  headers :: "(string \<times> string) list"
  body :: string

record OnionRequestResult =
  encryptedPayload :: buffer
  entryNode :: "OnionPathNode option"
  ephemeralKey :: buffer
  finalEphemeralKeyPair :: keypair

text \<open>The fields of the class that the operations read or write (the logger and the
  HTTP agent carry no state of interest).\<close>

record OnionBuilder =
  serviceNodes :: "ServiceNode list"
  timeout :: int
  onionPathLength :: int

definition OnionBuilder_new :: "ServiceNode list \<Rightarrow> int \<Rightarrow> OnionBuilder" where
  "OnionBuilder_new nodes len = \<lparr>serviceNodes = nodes, timeout = 10000, onionPathLength = len\<rparr>"

definition setOnionPathLength :: "int \<Rightarrow> OnionBuilder \<Rightarrow> OnionBuilder" where
  "setOnionPathLength len this = this\<lparr>onionPathLength := len\<rparr>"

subsection \<open>fetchServiceNodes and updateServiceNodes\<close>

text \<open>
  What one POST to a seed node comes to: the call throws, or the response lacks
  \<open>result.service_node_states\<close>, or it carries the states, each read into a
  \<open>ServiceNode\<close>. The network is a function of the round, the URL and the limit asked.
\<close>

datatype seed_reply = Throws js_error | NoStates | States "ServiceNode list"

definition OXEN_SEED_NODES :: "string list" where
  "OXEN_SEED_NODES =
     [''http://seed1.getsession.org/json_rpc'',
      ''http://seed2.getsession.org/json_rpc'',
      ''http://seed3.getsession.org/json_rpc'']"

fun try_seeds :: "(string \<Rightarrow> seed_reply) \<Rightarrow> string list \<Rightarrow> ServiceNode list option" where
  "try_seeds post [] = None"
| "try_seeds post (seedNodeUrl # rest) =
     (case post seedNodeUrl of
        States nodes \<Rightarrow> Some nodes
      | NoStates \<Rightarrow> try_seeds post rest
      | Throws e \<Rightarrow> try_seeds post rest)"

function fetch_attempts ::
  "(nat \<Rightarrow> string \<Rightarrow> int \<Rightarrow> seed_reply) \<Rightarrow> int \<Rightarrow> nat \<Rightarrow> js_error + ServiceNode list" where
  "fetch_attempts net limit attempt =
     (if attempt < 5 then
        (case try_seeds (\<lambda>url. net attempt url limit) OXEN_SEED_NODES of
           Some nodes \<Rightarrow> Inr nodes
         | None \<Rightarrow> fetch_attempts net limit (attempt + 1))
      else Inl (Error ''Failed to fetch service nodes from all seed nodes after attempts''))"
  by pat_completeness auto
termination
  by (relation "measure (\<lambda>(net, limit, attempt). 5 - attempt)") auto

declare fetch_attempts.simps [simp del]

definition fetchServiceNodes ::
  "(nat \<Rightarrow> string \<Rightarrow> int \<Rightarrow> seed_reply) \<Rightarrow> int \<Rightarrow> js_error + ServiceNode list" where
  "fetchServiceNodes net limit = fetch_attempts net limit 0"

definition updateServiceNodes ::
  "(nat \<Rightarrow> string \<Rightarrow> int \<Rightarrow> seed_reply) \<Rightarrow> int \<Rightarrow> OnionBuilder \<Rightarrow> (js_error + unit) \<times> OnionBuilder" where
  "updateServiceNodes net limit this =
     (case fetchServiceNodes net limit of
        Inr realServiceNodes \<Rightarrow> (Inr (), this\<lparr>serviceNodes := realServiceNodes\<rparr>)
      | Inl e \<Rightarrow> (Inl e, this))"

subsection \<open>buildOnionPath\<close>

text \<open>The filter keeps a node whose three strings are not empty and whose storage port
  is not 0 (the values JavaScript takes for true).\<close>

definition active_node :: "ServiceNode \<Rightarrow> bool" where
  "active_node node \<longleftrightarrow>
     pubkey_ed25519 node \<noteq> [] \<and> pubkey_x25519 node \<noteq> [] \<and> public_ip node \<noteq> [] \<and> storage_port node \<noteq> 0"

definition random_index :: "real \<Rightarrow> nat \<Rightarrow> int" where
  "random_index u len = \<lfloor>u * real len\<rfloor>"

text \<open>
  The selection loop. Each turn draws one value of \<open>Math.random()\<close>; the list holds the
  values the generator will give, and \<open>None\<close> says that the loop is still running when
  they are used up.
\<close>

fun select_loop ::
  "real list \<Rightarrow> ServiceNode list \<Rightarrow> int \<Rightarrow> ServiceNode option list \<Rightarrow> int set
     \<Rightarrow> ServiceNode option list option" where
  "select_loop [] activeNodes pathLength selectedNodes usedIndices =
     (if int (length selectedNodes) < pathLength then None else Some selectedNodes)"
| "select_loop (u # us) activeNodes pathLength selectedNodes usedIndices =
     (if int (length selectedNodes) < pathLength then
        (let randomIndex = random_index u (length activeNodes) in
         if randomIndex \<notin> usedIndices
         then select_loop us activeNodes pathLength
                (selectedNodes @ [js_index activeNodes randomIndex]) (insert randomIndex usedIndices)
         else select_loop us activeNodes pathLength selectedNodes usedIndices)
      else Some selectedNodes)"

definition to_path_node :: "ServiceNode \<Rightarrow> OnionPathNode" where
  "to_path_node node =
     \<lparr>ed25519_pubkey = pubkey_ed25519 node, x25519_pubkey = pubkey_x25519 node,
      ip = public_ip node, node_port = storage_port node\<rparr>"

text \<open>\<open>selectedNodes.map(...)\<close>: reading a property of \<open>undefined\<close> throws.\<close>

fun map_path :: "ServiceNode option list \<Rightarrow> js_error + OnionPathNode list" where
  "map_path [] = Inr []"
| "map_path (None # rest) = Inl (TypeError ''Cannot read properties of undefined'')"
| "map_path (Some node # rest) =
     (case map_path rest of Inl e \<Rightarrow> Inl e | Inr path \<Rightarrow> Inr (to_path_node node # path))"

definition not_enough_nodes :: "int \<Rightarrow> nat \<Rightarrow> js_error" where
  "not_enough_nodes need got =
     Error (''Not enough active service nodes. Need '' @ show_int need @ '', got '' @ show_nat got)"

text \<open>The body of the \<open>try\<close> block, and the method with its \<open>catch\<close>.\<close>

definition buildOnionPath_try ::
  "real list \<Rightarrow> OnionBuilder \<Rightarrow> int \<Rightarrow> (js_error + OnionPathNode list) option" where
  "buildOnionPath_try us this pathLength =
     (let activeNodes = filter active_node (serviceNodes this) in
      if int (length activeNodes) < pathLength
      then Some (Inl (not_enough_nodes pathLength (length activeNodes)))
      else map_option map_path (select_loop us activeNodes pathLength [] {}))"

definition buildOnionPath ::
  "real list \<Rightarrow> OnionBuilder \<Rightarrow> int \<Rightarrow> (js_error + OnionPathNode list) option" where
  "buildOnionPath us this pathLength =
     (case buildOnionPath_try us this pathLength of
        None \<Rightarrow> None
      | Some (Inl e) \<Rightarrow> Some (Inl (Error ''Unable to build onion path''))
      | Some (Inr path) \<Rightarrow> Some (Inr path))"

subsection \<open>buildOnionRequest\<close>

definition finalRoute :: json where
  "finalRoute = JObject [(''headers'', JObject [])]"

text \<open>The routing object of hop \<open>i\<close>: the destination for the last hop of the path, the
  next node and the ephemeral key handed down by the previous turn otherwise.\<close>

definition routingInfo :: "OnionPathNode list \<Rightarrow> OnionDestination \<Rightarrow> nat \<Rightarrow> buffer \<Rightarrow> json" where
  "routingInfo onionPath destination i ephemeralKeyForNextHop =
     (if i = length onionPath - 1 then
        JObject [(''host'', JString (host destination)),
                 (''port'', JNumber (port destination)),
                 (''protocol'', JString (protocol destination)),
                 (''target'', JString (target destination))]
      else
        JObject [(''destination'', JString (ed25519_pubkey (onionPath ! (i + 1)))),
                 (''ephemeral_key'', JString (toHex ephemeralKeyForNextHop)),
                 (''enc_type'', JString ''aes-gcm'')])"

text \<open>\<open>[blob_size][blob][routing_json]\<close>, the size written through a \<open>DataView\<close>.\<close>

definition layerData :: "buffer \<Rightarrow> json \<Rightarrow> buffer" where
  "layerData blob routing = u32_LE (length blob) @ blob @ utf8 (JSON_stringify routing)"

text \<open>One turn of the loop over the path, on the state it carries from turn to turn:
  the blob, the ephemeral key for the next hop, and the random generator.\<close>

definition hop_step ::
  "crypto_backend \<Rightarrow> OnionPathNode list \<Rightarrow> OnionDestination \<Rightarrow> nat \<Rightarrow> buffer \<times> buffer \<times> rng
     \<Rightarrow> js_error + buffer \<times> buffer \<times> rng" where
  "hop_step B onionPath destination i st =
     (case st of (blob, ephemeralKeyForNextHop, g) \<Rightarrow>
        (let node = onionPath ! i in
         case nacl_box_keyPair B g of (ephemeralKeyPair, g1) \<Rightarrow>
           (let layer = layerData blob (routingInfo onionPath destination i ephemeralKeyForNextHop);
                nodeX25519PubKey = fromHex (x25519_pubkey node);
                nodeHopEncryption =
                  HopEncryption_new (secretKey ephemeralKeyPair) (publicKey ephemeralKeyPair) False
            in case encrypt B nodeHopEncryption ''aes-gcm'' layer nodeX25519PubKey g1 of
                 Inl e \<Rightarrow> Inl e
               | Inr (blob', g2) \<Rightarrow> Inr (blob', publicKey ephemeralKeyPair, g2))))"

text \<open>\<open>for (let i = onionPath.length - 1; i >= 0; i--)\<close>: called with the length of the
  path, the loop handles hop \<open>length - 1\<close> first and hop 0 last.\<close>

fun hop_loop ::
  "crypto_backend \<Rightarrow> OnionPathNode list \<Rightarrow> OnionDestination \<Rightarrow> nat \<Rightarrow> buffer \<times> buffer \<times> rng
     \<Rightarrow> js_error + buffer \<times> buffer \<times> rng" where
  "hop_loop B onionPath destination 0 st = Inr st"
| "hop_loop B onionPath destination (Suc i) st =
     (case hop_step B onionPath destination i st of
        Inl e \<Rightarrow> Inl e
      | Inr st' \<Rightarrow> hop_loop B onionPath destination i st')"

definition wrapperMeta :: "buffer \<Rightarrow> json" where
  "wrapperMeta ephemeralKeyForNextHop =
     JObject [(''ephemeral_key'', JString (toHex ephemeralKeyForNextHop)),
              (''enc_type'', JString ''aes-gcm'')]"

definition buildOnionRequest ::
  "crypto_backend \<Rightarrow> rng \<Rightarrow> json \<Rightarrow> OnionPathNode list \<Rightarrow> OnionDestination
     \<Rightarrow> js_error + OnionRequestResult \<times> rng" where
  "buildOnionRequest B g finalPayload onionPath destination =
     (case nacl_box_keyPair B g of (finalKeyPair, g0) \<Rightarrow>
        (let payloadBuffer = utf8 (JSON_stringify finalPayload);
             routingBuffer = utf8 (JSON_stringify finalRoute)
         in case encodeSize (length payloadBuffer) of
              Inl e \<Rightarrow> Inl e
            | Inr sizeBuffer \<Rightarrow>
                (case hop_loop B onionPath destination (length onionPath)
                        (sizeBuffer @ payloadBuffer @ routingBuffer, publicKey finalKeyPair, g0) of
                   Inl e \<Rightarrow> Inl e
                 | Inr (blob, ephemeralKeyForNextHop, g') \<Rightarrow>
                     Inr (\<lparr>encryptedPayload =
                             u32_LE (length blob) @ blob
                               @ utf8 (JSON_stringify (wrapperMeta ephemeralKeyForNextHop)),
                           entryNode = js_index onionPath 0,
                           ephemeralKey = ephemeralKeyForNextHop,
                           finalEphemeralKeyPair = finalKeyPair\<rparr>, g'))))"

subsection \<open>sendRawOnionRequest and sendOnionRequest\<close>

text \<open>The POST to the entry node is a function of the URL and the body: it throws, or
  it answers with a status, headers and data.\<close>

definition entryNodeUrl :: "OnionPathNode \<Rightarrow> string" where
  "entryNodeUrl node = ''https://'' @ ip node @ '':'' @ show_int (node_port node)"

definition sendRawOnionRequest ::
  "(string \<Rightarrow> buffer \<Rightarrow> js_error + int \<times> (string \<times> string) list \<times> buffer) \<Rightarrow> OnionRequestResult
     \<Rightarrow> js_error + OnionResponse" where
  "sendRawOnionRequest http onionRequest =
     (case entryNode onionRequest of
        None \<Rightarrow> Inl (TypeError ''Cannot read properties of undefined'')
      | Some node \<Rightarrow>
          (case http (entryNodeUrl node @ ''/onion_req/v2'') (encryptedPayload onionRequest) of
             Inl e \<Rightarrow> Inl (Error (''Failed to send onion request: '' @ error_message e))
           | Inr (status, hdrs, dat) \<Rightarrow>
               Inr \<lparr>statusCode = status, headers = hdrs, body = buffer_toString dat\<rparr>))"

text \<open>The destination may be missing at run time (\<open>None\<close>); a field is missing when it is
  the empty string or the number 0.\<close>

definition sendOnionRequest ::
  "crypto_backend \<Rightarrow> rng \<Rightarrow> real list
     \<Rightarrow> (string \<Rightarrow> buffer \<Rightarrow> js_error + int \<times> (string \<times> string) list \<times> buffer)
     \<Rightarrow> OnionBuilder \<Rightarrow> json \<Rightarrow> OnionDestination option \<Rightarrow> (js_error + OnionResponse) option" where
  "sendOnionRequest B g us http this payload customDestination =
     (case customDestination of
        None \<Rightarrow> Some (Inl (Error ''Custom destination is required''))
      | Some dest \<Rightarrow>
          if host dest = [] \<or> port dest = 0 \<or> protocol dest = [] \<or> target dest = []
          then Some (Inl (Error
                 ''Custom destination must have host, port, protocol, and target properties''))
          else
            (case buildOnionPath us this (onionPathLength this) of
               None \<Rightarrow> None
             | Some (Inl e) \<Rightarrow> Some (Inl e)
             | Some (Inr onionPath) \<Rightarrow>
                 (case buildOnionRequest B g payload onionPath dest of
                    Inl e \<Rightarrow> Some (Inl e)
                  | Inr (onionRequest, g') \<Rightarrow> Some (sendRawOnionRequest http onionRequest))))"

section \<open>The wire format, as the specification writes it\<close>

text \<open>
  The specification describes the envelope from the inside out. \<open>seal\<close> is its HopCipher:
  the key is HMAC-SHA256 under \<open>LOKI\<close> of the X25519 shared secret, the output the IV
  followed by the AES-GCM ciphertext and tag. Layer \<open>k\<close> counts from the inside: layer
  \<open>k + 1\<close> is the one for hop \<open>N - 1 - k\<close> of a path of \<open>N\<close> hops. A build reads the random
  stream in this order: 32 bytes for the final key pair, then for each layer, innermost
  first, 32 bytes for its ephemeral secret and 12 bytes for its IV.
\<close>

definition seal :: "crypto_backend \<Rightarrow> buffer \<Rightarrow> buffer \<Rightarrow> buffer \<Rightarrow> buffer \<Rightarrow> buffer" where
  "seal B sender_sk peer_pub iv plaintext =
     iv @ aes_gcm_encrypt B (hmac_sha256 B (utf8 ''LOKI'') (x25519 B sender_sk peer_pub)) iv plaintext"

definition hop_secret :: "rng \<Rightarrow> nat \<Rightarrow> buffer" where
  "hop_secret g k = rng_bytes g (32 + 44 * k) 32"

definition hop_iv :: "rng \<Rightarrow> nat \<Rightarrow> buffer" where
  "hop_iv g k = rng_bytes g (32 + 44 * k + 32) 12"

text \<open>\<open>next_eph_pub\<close> when \<open>k\<close> layers are built: the final public key at first, then the
  public key of the layer built last.\<close>

definition next_eph_pub :: "crypto_backend \<Rightarrow> rng \<Rightarrow> nat \<Rightarrow> buffer" where
  "next_eph_pub B g k =
     x25519 B (if k = 0 then rng_bytes g 0 32 else hop_secret g (k - 1)) nacl_base_point"

definition terminal_routing :: "OnionDestination \<Rightarrow> string" where
  "terminal_routing d =
     ''{\"host\":'' @ json_quote (host d) @ '',\"port\":'' @ show_int (port d)
       @ '',\"protocol\":'' @ json_quote (protocol d) @ '',\"target\":'' @ json_quote (target d) @ ''}''"

definition intermediate_routing :: "string \<Rightarrow> buffer \<Rightarrow> string" where
  "intermediate_routing next_ed25519 eph_pub =
     ''{\"destination\":'' @ json_quote next_ed25519 @ '',\"ephemeral_key\":\"'' @ toHex eph_pub
       @ ''\",\"enc_type\":\"aes-gcm\"}''"

definition outer_meta :: "buffer \<Rightarrow> string" where
  "outer_meta eph_pub = ''{\"ephemeral_key\":\"'' @ toHex eph_pub @ ''\",\"enc_type\":\"aes-gcm\"}''"

definition routing_of_hop ::
  "crypto_backend \<Rightarrow> rng \<Rightarrow> OnionPathNode list \<Rightarrow> OnionDestination \<Rightarrow> nat \<Rightarrow> string" where
  "routing_of_hop B g P d i =
     (if i = length P - 1 then terminal_routing d
      else intermediate_routing (ed25519_pubkey (P ! (i + 1))) (next_eph_pub B g (length P - 1 - i)))"

fun onion_blob ::
  "crypto_backend \<Rightarrow> rng \<Rightarrow> json \<Rightarrow> OnionPathNode list \<Rightarrow> OnionDestination \<Rightarrow> nat \<Rightarrow> buffer" where
  "onion_blob B g payload P d 0 =
     u32_LE (length (utf8 (JSON_stringify payload))) @ utf8 (JSON_stringify payload)
       @ utf8 ''{\"headers\":{}}''"
| "onion_blob B g payload P d (Suc k) =
     seal B (hop_secret g k) (fromHex (x25519_pubkey (P ! (length P - 1 - k)))) (hop_iv g k)
       (u32_LE (length (onion_blob B g payload P d k)) @ onion_blob B g payload P d k
          @ utf8 (routing_of_hop B g P d (length P - 1 - k)))"


definition wrapper :: "buffer \<Rightarrow> buffer \<Rightarrow> buffer" where
  "wrapper blob eph_pub = u32_LE (length blob) @ blob @ utf8 (outer_meta eph_pub)"

text \<open>A path is well formed when each hop's X25519 key is the hexadecimal form of 32
  bytes, as the data model has it.\<close>

definition path_keys_ok :: "OnionPathNode list \<Rightarrow> bool" where
  "path_keys_ok P \<longleftrightarrow> list_all (\<lambda>node. length (fromHex (x25519_pubkey node)) = 32) P"



section \<open>Properties of the primitives, and values to run the model on\<close>

text \<open>
  Key agreement: what the X25519 function gives two parties that each combine their own
  secret with the other's public key, and the size of a public key.
\<close>

definition x25519_agrees :: "crypto_backend \<Rightarrow> bool" where
  "x25519_agrees B \<longleftrightarrow>
     (\<forall>a b. length a = 32 \<and> length b = 32 \<longrightarrow>
        length (x25519 B a nacl_base_point) = 32 \<and>
        x25519 B a (x25519 B b nacl_base_point) = x25519 B b (x25519 B a nacl_base_point))"

text \<open>
  A small stand-in for the libraries, with which the operations can be evaluated: it
  adds byte by byte where X25519 multiplies, and its seal is the reversed plaintext
  followed by 16 bytes of the key.
\<close>

definition toy_backend :: crypto_backend where
  "toy_backend =
     \<lparr>x25519 = (\<lambda>n p. map (\<lambda>i. n ! i + p ! i) [0..<32]),
      hmac_sha256 = (\<lambda>k m. take 32 (m @ k)),
      aes_gcm_encrypt = (\<lambda>key iv pt. rev pt @ take 16 key),
      aes_gcm_decrypt = (\<lambda>key iv ct.
         if drop (length ct - 16) ct = take 16 key
         then Some (rev (take (length ct - 16) ct)) else None)\<rparr>"

definition zero_rng :: rng where
  "zero_rng = \<lparr>rng_source = (\<lambda>i. 0), rng_pos = 0\<rparr>"

definition node_a :: ServiceNode where
  "node_a = \<lparr>pubkey_ed25519 = ''aa'', pubkey_x25519 = ''0101010101010101010101010101010101010101010101010101010101010101'',
     public_ip = ''10.0.0.1'', storage_lmq_port = 20200, storage_port = 22021, swarm_id = 1\<rparr>"

definition node_b :: ServiceNode where
  "node_b = \<lparr>pubkey_ed25519 = ''bb'', pubkey_x25519 = ''0202020202020202020202020202020202020202020202020202020202020202'',
     public_ip = ''10.0.0.2'', storage_lmq_port = 20200, storage_port = 22022, swarm_id = 2\<rparr>"

definition node_c :: ServiceNode where
  "node_c = \<lparr>pubkey_ed25519 = ''cc'', pubkey_x25519 = ''0303030303030303030303030303030303030303030303030303030303030303'',
     public_ip = ''10.0.0.3'', storage_lmq_port = 20200, storage_port = 0, swarm_id = 3\<rparr>"

definition example_destination :: OnionDestination where
  "example_destination =
     \<lparr>host = ''example.invalid'', port = 443, protocol = ''https'', target = ''/lsrpc''\<rparr>"

definition example_payload :: json where
  "example_payload = JObject [(''method'', JString ''get_message''), (''params'', JObject [])]"

definition example_path :: "OnionPathNode list" where
  "example_path = [to_path_node node_a, to_path_node node_b]"



definition empty_host_destination :: OnionDestination where
  "empty_host_destination = \<lparr>host = '''', port = 443, protocol = ''https'', target = ''''\<rparr>"




section \<open>Lemmas\<close>

lemma hex_digit_plain: "n < 16 \<Longrightarrow> json_escape (hex_digit n) = [hex_digit n]"
proof -
  assume "n < 16"
  then have "n \<in> {0,1,2,3,4,5,6,7,8,9,10,11,12,13,14,15}"
    by simp presburger
  then show ?thesis
    by (auto simp: hex_digit_def json_escape_def)
qed

lemma byte_nibbles: "unat (b::byte) div 16 < 16" "unat b mod 16 < 16"
proof -
  have "unat b < 2 ^ LENGTH(8)" by (rule unsigned_less)
  then have "unat b < 256" by simp
  then show "unat b div 16 < 16" by arith
  show "unat b mod 16 < 16" by simp
qed

lemma json_escape_toHex: "concat (map json_escape (toHex b)) = toHex b"
  by (induction b) (simp_all add: toHex_def byte_toHex_def hex_digit_plain byte_nibbles)

lemma json_quote_toHex: "json_quote (toHex b) = CHR 0x22 # toHex b @ [CHR 0x22]"
  by (simp add: json_quote_def json_escape_toHex)

lemma stringify_finalRoute: "JSON_stringify finalRoute = ''{\"headers\":{}}''"
  by (simp add: finalRoute_def json_quote_def json_escape_def)

lemma stringify_wrapperMeta: "JSON_stringify (wrapperMeta eph) = outer_meta eph"
  by (simp add: wrapperMeta_def outer_meta_def json_quote_toHex)
    (simp add: json_quote_def json_escape_def)

lemma stringify_terminal:
  "JSON_stringify (JObject [(''host'', JString (host d)), (''port'', JNumber (port d)),
      (''protocol'', JString (protocol d)), (''target'', JString (target d))]) = terminal_routing d"
  by (simp add: terminal_routing_def)
    (simp add: json_quote_def json_escape_def)

lemma stringify_intermediate:
  "JSON_stringify (JObject [(''destination'', JString ed), (''ephemeral_key'', JString (toHex eph)),
      (''enc_type'', JString ''aes-gcm'')]) = intermediate_routing ed eph"
  by (simp add: intermediate_routing_def json_quote_toHex)
    (simp add: json_quote_def json_escape_def)









lemma length_rng_bytes: "length (rng_bytes g off n) = n"
  by (simp add: rng_bytes_def)

lemma rng_bytes_skip: "rng_bytes (rng_skip m g) off n = rng_bytes g (m + off) n"
  by (simp add: rng_bytes_def rng_skip_def add.assoc)

lemma rng_skip_skip: "rng_skip m (rng_skip n g) = rng_skip (n + m) g"
  by (simp add: rng_skip_def add.assoc)

lemma routingInfo_spec:
  "JSON_stringify (routingInfo P d i (next_eph_pub B g (length P - 1 - i))) = routing_of_hop B g P d i"
  by (simp add: routingInfo_def routing_of_hop_def stringify_terminal stringify_intermediate
      del: JSON_stringify.simps)

lemma keypair_of_sel:
  "publicKey (keypair_of B sk) = x25519 B sk nacl_base_point" "secretKey (keypair_of B sk) = sk"
  by (simp_all add: keypair_of_def)

lemma box_keyPair_at:
  "nacl_box_keyPair B (rng_skip off g) = (keypair_of B (rng_bytes g off 32), rng_skip (off + 32) g)"
  by (simp add: nacl_box_keyPair_def randomBytes_def rng_bytes_skip rng_skip_skip)

lemma encrypt_at:
  assumes "length sk = 32" and "length peer = 32"
  shows "encrypt B (HopEncryption_new sk pk False) ''aes-gcm'' plain peer (rng_skip off g)
    = Inr (seal B sk peer (rng_bytes g off 12) plain, rng_skip (off + 12) g)"
  using assms
  by (simp add: encrypt_def encryptAESGCM_def HopEncryption_new_def deriveSymmetricKey_def
      nacl_scalarMult_def randomBytes_def rng_bytes_skip rng_skip_skip seal_def)

lemma hop_step_spec:
  assumes ok: "path_keys_ok P" and i: "i < length P" and k: "k = length P - 1 - i"
  shows "hop_step B P d i (onion_blob B g pl P d k, next_eph_pub B g k, rng_skip (32 + 44 * k) g)
    = Inr (onion_blob B g pl P d (Suc k), next_eph_pub B g (Suc k), rng_skip (32 + 44 * Suc k) g)"
proof -
  have key: "length (fromHex (x25519_pubkey (P ! i))) = 32"
    using ok i by (simp add: path_keys_ok_def list_all_length)
  have idx: "length P - 1 - k = i"
    using i k by simp
  have r: "JSON_stringify (routingInfo P d i (next_eph_pub B g k)) = routing_of_hop B g P d i"
    using routingInfo_spec [of P d i B g] k by simp
  have kp: "nacl_box_keyPair B (rng_skip (32 + 44 * k) g)
      = (keypair_of B (hop_secret g k), rng_skip (32 + 44 * k + 32) g)"
    by (simp only: box_keyPair_at hop_secret_def)
  have enc: "encrypt B (HopEncryption_new (hop_secret g k) pk False) ''aes-gcm'' plain
        (fromHex (x25519_pubkey (P ! i))) (rng_skip (32 + 44 * k + 32) g)
      = Inr (seal B (hop_secret g k) (fromHex (x25519_pubkey (P ! i))) (hop_iv g k) plain,
             rng_skip (32 + 44 * k + 32 + 12) g)" for pk plain
    by (simp only: encrypt_at [OF _ key] hop_secret_def hop_iv_def length_rng_bytes)
  have eph': "next_eph_pub B g (Suc k) = x25519 B (hop_secret g k) nacl_base_point"
    by (simp add: next_eph_pub_def)
  have blob': "onion_blob B g pl P d (Suc k)
      = seal B (hop_secret g k) (fromHex (x25519_pubkey (P ! i))) (hop_iv g k)
          (layerData (onion_blob B g pl P d k) (routingInfo P d i (next_eph_pub B g k)))"
    by (simp only: onion_blob.simps layerData_def r idx)
  have off: "32 + 44 * k + 32 + 12 = 32 + 44 * Suc k" by simp
  show ?thesis
    unfolding hop_step_def prod.case Let_def kp enc keypair_of_sel sum.case eph' blob' off ..
qed


lemma hop_loop_spec:
  assumes ok: "path_keys_ok P"
  shows "n \<le> length P \<Longrightarrow>
    hop_loop B P d n (onion_blob B g pl P d (length P - n), next_eph_pub B g (length P - n),
        rng_skip (32 + 44 * (length P - n)) g)
    = Inr (onion_blob B g pl P d (length P), next_eph_pub B g (length P),
        rng_skip (32 + 44 * length P) g)"
proof (induction n)
  case 0
  show ?case by (simp only: hop_loop.simps diff_zero)
next
  case (Suc n)
  have k: "length P - Suc n = length P - 1 - n" by simp
  have s: "Suc (length P - Suc n) = length P - n" using Suc.prems by simp
  have n: "n < length P" "n \<le> length P" using Suc.prems by simp_all
  have step: "hop_step B P d n (onion_blob B g pl P d (length P - Suc n),
        next_eph_pub B g (length P - Suc n), rng_skip (32 + 44 * (length P - Suc n)) g)
      = Inr (onion_blob B g pl P d (length P - n), next_eph_pub B g (length P - n),
          rng_skip (32 + 44 * (length P - n)) g)"
    using hop_step_spec [OF ok n(1) k, of B d g pl] by (simp only: s)
  show ?case
    by (simp only: hop_loop.simps step sum.case Suc.IH [OF n(2)])
qed

lemma buildOnionRequest_spec:
  assumes ok: "path_keys_ok P" and small: "length (utf8 (JSON_stringify pl)) < 2 ^ 32"
  shows "buildOnionRequest B g pl P d
    = Inr (\<lparr>encryptedPayload = wrapper (onion_blob B g pl P d (length P)) (next_eph_pub B g (length P)),
            entryNode = js_index P 0,
            ephemeralKey = next_eph_pub B g (length P),
            finalEphemeralKeyPair = keypair_of B (rng_bytes g 0 32)\<rparr>,
           rng_skip (32 + 44 * length P) g)"
proof -
  have kp: "nacl_box_keyPair B g = (keypair_of B (rng_bytes g 0 32), rng_skip 32 g)"
    by (simp add: nacl_box_keyPair_def randomBytes_def)
  have sz: "encodeSize (length (utf8 (JSON_stringify pl))) = Inr (u32_LE (length (utf8 (JSON_stringify pl))))"
    using small by (simp only: encodeSize_def if_True)
  have start: "(u32_LE (length (utf8 (JSON_stringify pl))) @ utf8 (JSON_stringify pl)
        @ utf8 (JSON_stringify finalRoute), publicKey (keypair_of B (rng_bytes g 0 32)), rng_skip 32 g)
      = (onion_blob B g pl P d (length P - length P), next_eph_pub B g (length P - length P),
         rng_skip (32 + 44 * (length P - length P)) g)"
    by (simp add: stringify_finalRoute keypair_of_def next_eph_pub_def del: JSON_stringify.simps)
  have loop: "hop_loop B P d (length P) (u32_LE (length (utf8 (JSON_stringify pl))) @ utf8 (JSON_stringify pl)
        @ utf8 (JSON_stringify finalRoute), publicKey (keypair_of B (rng_bytes g 0 32)), rng_skip 32 g)
      = Inr (onion_blob B g pl P d (length P), next_eph_pub B g (length P),
        rng_skip (32 + 44 * length P) g)"
    by (simp only: start hop_loop_spec [OF ok order_refl])
  show ?thesis
    unfolding buildOnionRequest_def kp prod.case Let_def sz sum.case loop wrapper_def
      stringify_wrapperMeta ..
qed

text \<open>
  The two conditions under which \<open>buildOnionRequest\<close> returns: \<open>nacl.scalarMult\<close>
  refuses a hop key that is not 32 bytes long, and \<open>writeUInt32LE\<close> a payload of
  \<open>2 ^ 32\<close> bytes or more. Nothing else in the method can throw, so the outcome does
  not depend on the destination, the generator or the primitives.
\<close>

lemma hop_step_bad_key:
  assumes "length (fromHex (x25519_pubkey (P ! i))) \<noteq> 32"
  shows "hop_step B P d i st = Inl (Error ''bad p size'')"
proof -
  obtain blob eph g where st: "st = (blob, eph, g)" by (cases st)
  show ?thesis
    using assms
    by (simp add: st hop_step_def nacl_box_keyPair_def randomBytes_def keypair_of_def Let_def
        encrypt_def encryptAESGCM_def HopEncryption_new_def deriveSymmetricKey_def
        nacl_scalarMult_def length_rng_bytes del: JSON_stringify.simps)
qed

lemma buildOnionRequest_bad_last_key:
  assumes "P \<noteq> []" and "length (utf8 (JSON_stringify pl)) < 2 ^ 32"
    and "length (fromHex (x25519_pubkey (last P))) \<noteq> 32"
  shows "buildOnionRequest B g pl P d = Inl (Error ''bad p size'')"
proof -
  obtain n where n: "length P = Suc n" using assms(1) by (cases P) simp_all
  have "P ! n = last P" using n assms(1) by (simp add: last_conv_nth)
  then have "hop_step B P d n st = Inl (Error ''bad p size'')" for st
    using assms(3) by (simp add: hop_step_bad_key)
  then show ?thesis
    using assms(2)
    by (simp add: buildOnionRequest_def nacl_box_keyPair_def randomBytes_def Let_def encodeSize_def n
        del: JSON_stringify.simps)
qed

lemma hop_loop_Inr_keys:
  "hop_loop B P d n st = Inr st' \<Longrightarrow> i < n \<Longrightarrow> length (fromHex (x25519_pubkey (P ! i))) = 32"
proof (induction n arbitrary: st)
  case 0
  then show ?case by simp
next
  case (Suc n)
  show ?case
  proof (cases "hop_step B P d n st")
    case (Inl e)
    with Suc.prems(1) show ?thesis by simp
  next
    case (Inr st1)
    then have key: "length (fromHex (x25519_pubkey (P ! n))) = 32"
      using hop_step_bad_key [of P n B d st] by auto
    from Inr Suc.prems(1) have "hop_loop B P d n st1 = Inr st'" by simp
    from Suc.IH [OF this] key Suc.prems(2) show ?thesis
      by (cases "i = n") simp_all
  qed
qed

lemma buildOnionRequest_Inr_iff:
  "(\<exists>r. buildOnionRequest B g pl P d = Inr r)
     \<longleftrightarrow> path_keys_ok P \<and> length (utf8 (JSON_stringify pl)) < 2 ^ 32"
proof
  assume "\<exists>r. buildOnionRequest B g pl P d = Inr r"
  then obtain r where r: "buildOnionRequest B g pl P d = Inr r" ..
  have small: "length (utf8 (JSON_stringify pl)) < 2 ^ 32"
    using r
    by (auto simp: buildOnionRequest_def nacl_box_keyPair_def randomBytes_def Let_def encodeSize_def
        split: if_splits simp del: JSON_stringify.simps)
  from r obtain st st' where "hop_loop B P d (length P) st = Inr st'"
    by (auto simp: buildOnionRequest_def nacl_box_keyPair_def randomBytes_def Let_def
        split: sum.splits simp del: JSON_stringify.simps)
  then have "\<forall>i<length P. length (fromHex (x25519_pubkey (P ! i))) = 32"
    using hop_loop_Inr_keys by blast
  then have "path_keys_ok P"
    by (simp add: path_keys_ok_def list_all_length)
  with small show "path_keys_ok P \<and> length (utf8 (JSON_stringify pl)) < 2 ^ 32" by simp
next
  assume "path_keys_ok P \<and> length (utf8 (JSON_stringify pl)) < 2 ^ 32"
  then show "\<exists>r. buildOnionRequest B g pl P d = Inr r"
    using buildOnionRequest_spec [of P pl B g d] by blast
qed

section \<open>The claims\<close>

lemma toy_agrees: "x25519_agrees toy_backend"
  unfolding x25519_agrees_def toy_backend_def
  by (simp add: nacl_base_point_def add.left_commute)

text \<open>
  Claim C3. For a secret scalar and a peer public key of 32 bytes each,
  \<open>deriveSymmetricKey\<close> returns HMAC-SHA256, keyed with the four ASCII bytes of \<open>LOKI\<close>, of
  the X25519 shared secret, whatever the \<open>isForDecryption\<close> flag. The derivation does not
  depend on the direction: with an X25519 function that agrees on the shared secret of
  two key pairs, the key derived from one party's secret and the other's public key is
  the key derived the other way round.
\<close>
theorem deriveSymmetricKey_LOKI:
  "(length s = 32 \<and> length P = 32 \<longrightarrow>
      deriveSymmetricKey B s P f = Inr (hmac_sha256 B (utf8 ''LOKI'') (x25519 B s P)))
   \<and> utf8 ''LOKI'' = [76, 79, 75, 73]
   \<and> (x25519_agrees B \<and> length a_sk = 32 \<and> length b_sk = 32 \<longrightarrow>
        deriveSymmetricKey B a_sk (publicKey (keypair_of B b_sk)) f
          = deriveSymmetricKey B b_sk (publicKey (keypair_of B a_sk)) f')"
  by (auto simp: deriveSymmetricKey_def nacl_scalarMult_def keypair_of_def x25519_agrees_def utf8_def)

theorem deriveSymmetricKey_LOKI_witness:
  "deriveSymmetricKey toy_backend (replicate 32 1) (replicate 32 2) False
     = Inr (replicate 32 3)
   \<and> deriveSymmetricKey toy_backend (replicate 32 1) (publicKey (keypair_of toy_backend (replicate 32 2))) False
     = deriveSymmetricKey toy_backend (replicate 32 2) (publicKey (keypair_of toy_backend (replicate 32 1))) True"
proof -
  have len: "length (replicate 32 (1::byte)) = 32" "length (replicate 32 (2::byte)) = 32"
    by simp_all
  have x: "x25519 toy_backend (replicate 32 1) (replicate 32 2) = replicate 32 3"
    by (simp add: toy_backend_def list_eq_iff_nth_eq)
  have h: "hmac_sha256 toy_backend (utf8 ''LOKI'') (replicate 32 3) = replicate 32 3"
    by (simp add: toy_backend_def)
  from deriveSymmetricKey_LOKI [where s = "replicate 32 1" and P = "replicate 32 2"
      and B = toy_backend and f = False and a_sk = "replicate 32 1" and b_sk = "replicate 32 2"
      and f' = True] len toy_agrees x h
  show ?thesis by simp
qed

text \<open>
  Claim C8. The constructor of \<open>HopEncryption\<close> keeps the first 32 bytes of each key: a
  longer key is cut, a shorter one is stored as it is, and no input is refused. Sealing
  and opening with the object depend on the first 32 bytes of the secret key only (the
  stored public key takes no part in the derivation).
\<close>
theorem HopEncryption_new_truncates:
  "he_privateKey (HopEncryption_new sk pk srv) = take 32 sk
   \<and> he_publicKey (HopEncryption_new sk pk srv) = take 32 pk
   \<and> (length sk \<le> 32 \<longrightarrow> he_privateKey (HopEncryption_new sk pk srv) = sk)
   \<and> (length pk \<le> 32 \<longrightarrow> he_publicKey (HopEncryption_new sk pk srv) = pk)
   \<and> (take 32 sk = take 32 sk' \<longrightarrow>
        encryptAESGCM B (HopEncryption_new sk pk srv) pt rpk g
          = encryptAESGCM B (HopEncryption_new sk' pk' srv') pt rpk g
        \<and> decryptAESGCM B (HopEncryption_new sk pk srv) ct spk
          = decryptAESGCM B (HopEncryption_new sk' pk' srv') ct spk)"
  by (simp add: HopEncryption_new_def encryptAESGCM_def decryptAESGCM_def)

theorem HopEncryption_new_truncates_witness:
  "he_privateKey (HopEncryption_new (replicate 40 1) [5, 6] False) = replicate 32 1
   \<and> he_publicKey (HopEncryption_new (replicate 40 1) [5, 6] False) = [5, 6]
   \<and> he_privateKey (HopEncryption_new [7] [5, 6] False) = [7]
   \<and> encryptAESGCM toy_backend (HopEncryption_new (replicate 40 1) [5, 6] False) [1, 2] (replicate 32 3) zero_rng
        = encryptAESGCM toy_backend (HopEncryption_new (replicate 32 1 @ [9]) [] True) [1, 2] (replicate 32 3) zero_rng"
proof -
  have t: "take 32 (replicate 40 (1::byte)) = take 32 (replicate 32 1 @ [9])"
    by simp
  have l: "length [7::byte] \<le> 32" "length [5::byte, 6] \<le> 32"
    by simp_all
  from HopEncryption_new_truncates [where sk = "replicate 40 1" and pk = "[5, 6]" and srv = False
      and sk' = "replicate 32 1 @ [9]" and B = toy_backend and pt = "[1, 2]"
      and rpk = "replicate 32 3" and g = zero_rng and pk' = "[]" and srv' = True]
    HopEncryption_new_truncates [where sk = "[7]" and pk = "[5, 6]" and srv = False] t l
  show ?thesis by simp
qed

text \<open>
  Claim C5, as amended. \<open>decrypt\<close> runs the AES-GCM opening for the cipher names
  \<open>aes-gcm\<close>, \<open>gcm\<close> and \<open>xchacha20\<close>, and rejects every other name with the error
  \<open>Unsupported encryption type\<close>.
\<close>
theorem decrypt_enc_types:
  "(encType \<in> {''aes-gcm'', ''gcm'', ''xchacha20''} \<longrightarrow>
      decrypt B this encType ciphertext senderPubKey = decryptAESGCM B this ciphertext senderPubKey)
   \<and> (encType \<notin> {''aes-gcm'', ''gcm'', ''xchacha20''} \<longrightarrow>
      decrypt B this encType ciphertext senderPubKey
        = Inl (Error (''Unsupported encryption type: '' @ encType)))"
  by (auto simp: decrypt_def)

theorem decrypt_enc_types_witness:
  "decrypt toy_backend (HopEncryption_new (replicate 32 1) [] True) ''gcm'' [] (replicate 32 2)
     = decryptAESGCM toy_backend (HopEncryption_new (replicate 32 1) [] True) [] (replicate 32 2)
   \<and> decrypt toy_backend (HopEncryption_new (replicate 32 1) [] True) ''chacha'' [] (replicate 32 2)
     = Inl (Error ''Unsupported encryption type: chacha'')"
  using decrypt_enc_types [where encType = "''gcm''" and B = toy_backend
      and this = "HopEncryption_new (replicate 32 1) [] True" and ciphertext = "[]"
      and senderPubKey = "replicate 32 2"]
    decrypt_enc_types [where encType = "''chacha''" and B = toy_backend
      and this = "HopEncryption_new (replicate 32 1) [] True" and ciphertext = "[]"
      and senderPubKey = "replicate 32 2"]
  by simp

text \<open>
  Claim C5 as stated fails: under the name \<open>xchacha20\<close> (and under \<open>gcm\<close>) a well-formed
  AES-GCM ciphertext is opened and its plaintext returned.
\<close>

theorem decrypt_xchacha20_counterexample:
  "decrypt toy_backend (HopEncryption_new (replicate 32 1) [] True) ''xchacha20''
     (replicate 12 0 @ [9, 8, 7] @ replicate 16 3) (replicate 32 2) = Inr [7, 8, 9]
   \<and> decrypt toy_backend (HopEncryption_new (replicate 32 1) [] True) ''gcm''
     (replicate 12 0 @ [9, 8, 7] @ replicate 16 3) (replicate 32 2) = Inr [7, 8, 9]"
proof -
  have x: "x25519 toy_backend (replicate 32 1) (replicate 32 2) = replicate 32 3"
    by (simp add: toy_backend_def list_eq_iff_nth_eq)
  have k: "deriveSymmetricKey toy_backend (replicate 32 1) (replicate 32 2) True = Inr (replicate 32 3)"
    by (simp add: deriveSymmetricKey_def nacl_scalarMult_def x) (simp add: toy_backend_def)
  have d: "aes_gcm_decrypt toy_backend (replicate 32 3) (replicate 12 0) (9 # 8 # 7 # replicate 16 3)
      = Some [7, 8, 9]"
    by (simp add: toy_backend_def)
  have "decryptAESGCM toy_backend (HopEncryption_new (replicate 32 1) [] True)
     (replicate 12 0 @ [9, 8, 7] @ replicate 16 3) (replicate 32 2) = Inr [7, 8, 9]"
    by (simp add: decryptAESGCM_def HopEncryption_new_def k d)
  then show ?thesis by (simp add: decrypt_def)
qed

text \<open>
  Claim C9. \<open>updateServiceNodes\<close> changes the stored list in one step: when the fetch
  fails, its error is thrown again and the builder is exactly as before; when it
  succeeds, the list is replaced by the fetched nodes and nothing else changes.
\<close>
theorem updateServiceNodes_atomic:
  "(fetchServiceNodes net limit = Inl e \<longrightarrow> updateServiceNodes net limit this = (Inl e, this))
   \<and> (fetchServiceNodes net limit = Inr nodes \<longrightarrow>
        updateServiceNodes net limit this = (Inr (), this\<lparr>serviceNodes := nodes\<rparr>))"
  by (simp add: updateServiceNodes_def)

lemma fetch_fails:
  "fetchServiceNodes (\<lambda>attempt url limit. Throws (Error ''timeout'')) 3
     = Inl (Error ''Failed to fetch service nodes from all seed nodes after attempts'')"
  by (simp add: fetchServiceNodes_def fetch_attempts.simps OXEN_SEED_NODES_def)

lemma fetch_succeeds:
  "fetchServiceNodes (\<lambda>attempt url limit.
      if attempt = 1 \<and> url = ''http://seed3.getsession.org/json_rpc'' then States [node_a, node_b]
      else if url = ''http://seed1.getsession.org/json_rpc'' then Throws (Error ''500'') else NoStates) 3
     = Inr [node_a, node_b]"
  by (simp add: fetchServiceNodes_def fetch_attempts.simps OXEN_SEED_NODES_def)

theorem updateServiceNodes_atomic_witness:
  "updateServiceNodes (\<lambda>attempt url limit. Throws (Error ''timeout'')) 3 (OnionBuilder_new [node_c] 3)
     = (Inl (Error ''Failed to fetch service nodes from all seed nodes after attempts''), OnionBuilder_new [node_c] 3)
   \<and> updateServiceNodes (\<lambda>attempt url limit.
      if attempt = 1 \<and> url = ''http://seed3.getsession.org/json_rpc'' then States [node_a, node_b]
      else if url = ''http://seed1.getsession.org/json_rpc'' then Throws (Error ''500'') else NoStates) 3
        (OnionBuilder_new [node_c] 3)
     = (Inr (), OnionBuilder_new [node_a, node_b] 3)"
proof -
  have u: "(OnionBuilder_new [node_c] 3)\<lparr>serviceNodes := [node_a, node_b]\<rparr> = OnionBuilder_new [node_a, node_b] 3"
    by (simp add: OnionBuilder_new_def)
  from updateServiceNodes_atomic [where net = "\<lambda>attempt url limit. Throws (Error ''timeout'')"
      and limit = 3 and this = "OnionBuilder_new [node_c] 3"
      and e = "Error ''Failed to fetch service nodes from all seed nodes after attempts''"]
    updateServiceNodes_atomic [where net = "\<lambda>attempt url limit.
      if attempt = 1 \<and> url = ''http://seed3.getsession.org/json_rpc'' then States [node_a, node_b]
      else if url = ''http://seed1.getsession.org/json_rpc'' then Throws (Error ''500'') else NoStates"
      and limit = 3 and nodes = "[node_a, node_b]" and this = "OnionBuilder_new [node_c] 3"]
    fetch_fails fetch_succeeds u
  show ?thesis by simp
qed

lemma example_path_ok: "path_keys_ok example_path"
  by (simp add: path_keys_ok_def example_path_def to_path_node_def node_a_def node_b_def hex_value_def)

lemma example_payload_small: "length (utf8 (JSON_stringify example_payload)) < 2 ^ 32"
  by (simp add: example_payload_def utf8_def json_quote_def json_escape_def)















lemma json_quote_empty: "json_quote [] = ''\"\"''"
  by (simp add: json_quote_def)

lemma routingInfo_terminal:
  "JSON_stringify (routingInfo P d (length P - 1) e) = terminal_routing d"
  by (simp add: routingInfo_def stringify_terminal del: JSON_stringify.simps)

text \<open>
  Claim C10. Only \<open>sendOnionRequest\<close> checks the destination. Where \<open>buildOnionRequest\<close>
  returns for some destination, on a path of at least one hop, it returns as well for a
  destination whose host or target is empty; the layer sealed for the last hop carries
  the routing JSON of the destination, in which an empty field stands as the empty
  string \<open>""\<close>.
  \<open>sendOnionRequest\<close> fails on the same destination with its validation error, whatever
  the nodes, the random values and the network are: nothing is selected or built.
\<close>
theorem destination_checked_by_send_only:
  assumes "host d = [] \<or> target d = []"
    and "P \<noteq> []" and "buildOnionRequest B g pl P d' = Inr built"
  shows "(\<exists>r g'. buildOnionRequest B g pl P d = Inr (r, g')
            \<and> encryptedPayload r = wrapper (onion_blob B g pl P d (length P)) (ephemeralKey r))
     \<and> onion_blob B g pl P d 1
         = seal B (hop_secret g 0) (fromHex (x25519_pubkey (P ! (length P - 1)))) (hop_iv g 0)
             (layerData (onion_blob B g pl P d 0) (routingInfo P d (length P - 1) e))
     \<and> JSON_stringify (routingInfo P d (length P - 1) e)
         = ''{\"host\":'' @ json_quote (host d) @ '',\"port\":'' @ show_int (port d)
             @ '',\"protocol\":'' @ json_quote (protocol d) @ '',\"target\":'' @ json_quote (target d) @ ''}''
     \<and> json_quote [] = ''\"\"''
     \<and> sendOnionRequest B g us http this pl (Some d)
         = Some (Inl (Error ''Custom destination must have host, port, protocol, and target properties''))"
proof -
  from assms(3) have ok: "path_keys_ok P" and small: "length (utf8 (JSON_stringify pl)) < 2 ^ 32"
    using buildOnionRequest_Inr_iff [of B g pl P d'] by blast+
  have 1: "\<exists>r g'. buildOnionRequest B g pl P d = Inr (r, g')
            \<and> encryptedPayload r = wrapper (onion_blob B g pl P d (length P)) (ephemeralKey r)"
    unfolding buildOnionRequest_spec [OF ok small] by simp
  have 2: "onion_blob B g pl P d 1
         = seal B (hop_secret g 0) (fromHex (x25519_pubkey (P ! (length P - 1)))) (hop_iv g 0)
             (layerData (onion_blob B g pl P d 0) (routingInfo P d (length P - 1) e))"
  proof -
    have r: "routing_of_hop B g P d (length P - 1) = JSON_stringify (routingInfo P d (length P - 1) e)"
      by (simp only: routing_of_hop_def routingInfo_terminal if_True simp_thms)
    have "onion_blob B g pl P d (Suc 0)
         = seal B (hop_secret g 0) (fromHex (x25519_pubkey (P ! (length P - 1)))) (hop_iv g 0)
             (layerData (onion_blob B g pl P d 0) (routingInfo P d (length P - 1) e))"
      by (simp only: onion_blob.simps(2) diff_zero layerData_def r)
    then show ?thesis by (simp only: One_nat_def)
  qed
  have 3: "JSON_stringify (routingInfo P d (length P - 1) e)
         = ''{\"host\":'' @ json_quote (host d) @ '',\"port\":'' @ show_int (port d)
             @ '',\"protocol\":'' @ json_quote (protocol d) @ '',\"target\":'' @ json_quote (target d) @ ''}''"
    by (simp only: routingInfo_terminal terminal_routing_def)
  have 5: "sendOnionRequest B g us http this pl (Some d)
         = Some (Inl (Error ''Custom destination must have host, port, protocol, and target properties''))"
    using assms(1) by (auto simp: sendOnionRequest_def)
  show ?thesis
    using 1 2 3 json_quote_empty 5 by (simp only: simp_thms)
qed

theorem destination_checked_by_send_only_witness:
  "(\<exists>r g'. buildOnionRequest toy_backend zero_rng example_payload example_path empty_host_destination = Inr (r, g')
            \<and> encryptedPayload r
               = wrapper (onion_blob toy_backend zero_rng example_payload example_path empty_host_destination
                   (length example_path)) (ephemeralKey r))
     \<and> JSON_stringify (routingInfo example_path empty_host_destination (length example_path - 1) [])
         = ''{\"host\":\"\",\"port\":443,\"protocol\":\"https\",\"target\":\"\"}''
     \<and> sendOnionRequest toy_backend zero_rng [] (\<lambda>url dat. Inl (Error ''unreachable''))
           (OnionBuilder_new [node_a, node_b] 2) example_payload (Some empty_host_destination)
         = Some (Inl (Error ''Custom destination must have host, port, protocol, and target properties''))"
proof -
  have ne: "example_path \<noteq> []" by (simp add: example_path_def)
  have h: "host empty_host_destination = [] \<or> target empty_host_destination = []"
    by (simp add: empty_host_destination_def)
  have j: "''{\"host\":'' @ json_quote (host empty_host_destination) @ '',\"port\":''
             @ show_int (port empty_host_destination)
             @ '',\"protocol\":'' @ json_quote (protocol empty_host_destination)
             @ '',\"target\":'' @ json_quote (target empty_host_destination) @ ''}''
      = ''{\"host\":\"\",\"port\":443,\"protocol\":\"https\",\"target\":\"\"}''"
    by (simp add: empty_host_destination_def json_quote_def json_escape_def show_int_def
        show_nat.simps hex_digit_def)
  from destination_checked_by_send_only [OF h ne
      buildOnionRequest_spec [OF example_path_ok example_payload_small,
        of toy_backend zero_rng example_destination],
      where e = "[]" and us = "[]" and http = "\<lambda>url dat. Inl (Error ''unreachable'')"
        and this = "OnionBuilder_new [node_a, node_b] 2"]
  show ?thesis
    by (simp only: j)
qed

lemma active_abc:
  "filter active_node (serviceNodes (OnionBuilder_new [node_a, node_b, node_c] n)) = [node_a, node_b]"
  by (simp add: OnionBuilder_new_def active_node_def node_a_def node_b_def node_c_def)

lemma sel_ex: "select_loop [1/10, 1/10, 6/10, 9/10] [node_a, node_b] 2 [] {} = Some [Some node_a, Some node_b]"
  by (simp add: random_index_def js_index_def)

lemma path_ex: "buildOnionPath [1/10, 1/10, 6/10, 9/10] (OnionBuilder_new [node_a, node_b, node_c] 3) 2
   = Some (Inr [to_path_node node_a, to_path_node node_b])"
  unfolding buildOnionPath_def buildOnionPath_try_def Let_def active_abc sel_ex
  by simp

lemma path_short: "buildOnionPath [1/10, 1/10] (OnionBuilder_new [node_a, node_b, node_c] 3) 2 = None"
  unfolding buildOnionPath_def buildOnionPath_try_def Let_def active_abc
  by (simp add: random_index_def js_index_def)














text \<open>
  Claim C6, as amended. For the path length 0, \<open>buildOnionPath\<close> returns the empty path,
  whatever the candidates and the random values are; it raises no error.
\<close>
theorem buildOnionPath_zero_length:
  "buildOnionPath us this 0 = Some (Inr [])"
  by (cases us) (simp_all add: buildOnionPath_def buildOnionPath_try_def)

text \<open>
  Claim C6 as stated fails: with two candidates and the path length 0, the result is the
  empty path, not an error.
\<close>

theorem buildOnionPath_zero_length_counterexample:
  "buildOnionPath [] (OnionBuilder_new [node_a, node_b] 3) 0 = Some (Inr [])"
  by (simp add: buildOnionPath_def buildOnionPath_try_def)

end
